theory Spec2Isabelle
  imports Complex_Main "HOL-Library.FSet" "HOL-Library.Stream"
begin

section \<open>Conventions of the embedding\<close>

text \<open>
  The Python sources \<^verbatim>\<open>state_manager.py\<close>, \<^verbatim>\<open>interventions.py\<close>,
  \<^verbatim>\<open>reward_shaper.py\<close> and \<^verbatim>\<open>mcts.py\<close> are embedded function by function.
  \<^item> A Python \<^verbatim>\<open>float\<close> is a \<^typ>\<open>real\<close>: binary rounding, NaN and overflow are outside
    the model. Two places where the code meets a value that is no real number are
    modelled explicitly: \<^verbatim>\<open>float('inf')\<close> in the UCT score, by the datatype \<open>score\<close>, and an
    action descriptor whose magnitude reads as infinity or NaN, by the outcome
    \<open>NonFinitePosition\<close> of the applier.
  \<^item> A Python \<^verbatim>\<open>str\<close> is a \<^typ>\<open>string\<close> of ASCII characters.
  \<^item> A Python \<^verbatim>\<open>set\<close> is a finite set (\<open>fset\<close>); a \<^verbatim>\<open>dict\<close> that is only looked up
    and updated is a map, one that is iterated is an association list in insertion order.
  \<^item> An object position is the three-element list \<^verbatim>\<open>[x, y, z]\<close> of the class docstring,
    modelled as a triple.
  \<^item> Methods that assign to attributes take the object and return the updated object;
    methods that only read return their value.
\<close>

section \<open>String primitives of Python used by the sources\<close>

text \<open>\<^verbatim>\<open>str.isspace\<close> on ASCII: TAB, LF, VT, FF, CR, FS, GS, RS, US and the blank.\<close>

definition is_space :: "char \<Rightarrow> bool" where
  "is_space c = (of_char c \<in> {9, 10, 11, 12, 13, 28, 29, 30, 31, 32 :: nat})"

text \<open>\<^verbatim>\<open>s.strip()\<close>\<close>

definition strip :: "string \<Rightarrow> string" where
  "strip s = rev (dropWhile is_space (rev (dropWhile is_space s)))"

text \<open>\<^verbatim>\<open>s.split(sep)\<close> for a one-character separator: never the empty list.\<close>

fun split_on :: "char \<Rightarrow> string \<Rightarrow> string list" where
  "split_on sep [] = [[]]"
| "split_on sep (c # cs) =
     (if c = sep then [] # split_on sep cs
      else (c # hd (split_on sep cs)) # tl (split_on sep cs))"

text \<open>\<^verbatim>\<open>s.startswith(p)\<close>\<close>

definition startswith :: "string \<Rightarrow> string \<Rightarrow> bool" where
  "startswith s p = (take (length p) s = p)"

text \<open>\<^verbatim>\<open>d in s\<close> for strings: \<open>d\<close> occurs in \<open>s\<close> as a contiguous block.\<close>

fun str_contains :: "string \<Rightarrow> string \<Rightarrow> bool" where
  "str_contains d [] = (d = [])"
| "str_contains d (c # cs) = (startswith (c # cs) d \<or> str_contains d cs)"

text \<open>\<^verbatim>\<open>s[3:-1]\<close>\<close>

definition slice_3_m1 :: "string \<Rightarrow> string" where
  "slice_3_m1 s = drop 3 (butlast s)"

text \<open>\<^verbatim>\<open>s.isdigit()\<close> on ASCII: non-empty and all decimal digits.\<close>

definition is_digit :: "char \<Rightarrow> bool" where
  "is_digit c = (48 \<le> (of_char c :: nat) \<and> (of_char c :: nat) \<le> 57)"

definition isdigit :: "string \<Rightarrow> bool" where
  "isdigit s = (s \<noteq> [] \<and> list_all is_digit s)"

section \<open>state\_manager.py\<close>

type_synonym position = "real \<times> real \<times> real"

text \<open>The \<^verbatim>\<open>initial_state\<close> dictionary read from JSON: keys \<^verbatim>\<open>'objects'\<close> and
  \<^verbatim>\<open>'relationships'\<close>; an absent key reads as the empty default of \<^verbatim>\<open>.get\<close>.\<close>

record initial_state =
  is_objects :: "string \<rightharpoonup> position"
  is_relationships :: "string list"

record state_manager =
  objects :: "string \<rightharpoonup> position"
  initial_objects :: "string \<rightharpoonup> position"
  relationships :: "string fset"
  alignment_threshold :: real
  intervened_objects :: "string fset"

text \<open>\<^verbatim>\<open>StateManager.__init__\<close>\<close>

definition StateManager :: "initial_state \<Rightarrow> real \<Rightarrow> state_manager" where
  "StateManager init thr =
     \<lparr> objects = is_objects init,
       initial_objects = is_objects init,
       relationships = fset_of_list (is_relationships init),
       alignment_threshold = thr,
       intervened_objects = {||} \<rparr>"

text \<open>The dictionary literal \<^verbatim>\<open>direction_vectors\<close> of \<^verbatim>\<open>apply_shift\<close>.\<close>

definition direction_vectors :: "real \<Rightarrow> string \<rightharpoonup> position" where
  "direction_vectors magnitude =
     [''left'' \<mapsto> (- magnitude, 0, 0),
      ''right'' \<mapsto> (magnitude, 0, 0),
      ''forward'' \<mapsto> (0, magnitude, 0),
      ''back'' \<mapsto> (0, - magnitude, 0)]"

text \<open>\<^verbatim>\<open>StateManager.apply_shift\<close>: the updated manager and the returned flag.\<close>

definition apply_shift ::
  "state_manager \<Rightarrow> string \<Rightarrow> string \<Rightarrow> real \<Rightarrow> state_manager \<times> bool" where
  "apply_shift self obj direction magnitude =
     (case objects self obj of
        None \<Rightarrow> (self, False)
      | Some (x, y, z) \<Rightarrow>
          (case direction_vectors magnitude direction of
             None \<Rightarrow> (self, False)
           | Some (dx, dy, dz) \<Rightarrow>
               (self\<lparr> objects := (objects self)(obj \<mapsto> (x + dx, y + dy, z + dz)),
                      intervened_objects := finsert obj (intervened_objects self) \<rparr>,
                True)))"

text \<open>\<^verbatim>\<open>StateManager.check_alignment\<close>\<close>

definition check_alignment :: "state_manager \<Rightarrow> string \<Rightarrow> string \<Rightarrow> bool" where
  "check_alignment self obj_a obj_b =
     (case (objects self obj_a, objects self obj_b) of
        (Some (ax, ay, az), Some (bx, by, bz)) \<Rightarrow>
          \<bar>ax - bx\<bar> < alignment_threshold self \<and> \<bar>ay - by\<bar> < alignment_threshold self
      | _ \<Rightarrow> False)"

text \<open>\<^verbatim>\<open>StateManager._check_relationship_holds\<close>\<close>

definition check_relationship_holds :: "state_manager \<Rightarrow> string \<Rightarrow> bool" where
  "check_relationship_holds self relationship =
     (if \<not> startswith relationship ''On('' then True
      else let parts = split_on (CHR '','') (slice_3_m1 relationship) in
        if length parts \<noteq> 2 then True
        else let obj_a = strip (parts ! 0); obj_b = strip (parts ! 1) in
          if objects self obj_a = None \<or> objects self obj_b = None then True
          else check_alignment self obj_a obj_b)"

text \<open>\<^verbatim>\<open>StateManager.get_relationships\<close>\<close>

definition get_relationships :: "state_manager \<Rightarrow> string fset" where
  "get_relationships self = ffilter (check_relationship_holds self) (relationships self)"

text \<open>\<^verbatim>\<open>StateManager.check_misalignment\<close>\<close>

definition check_misalignment :: "state_manager \<Rightarrow> string \<Rightarrow> string \<Rightarrow> bool" where
  "check_misalignment self obj reference = (\<not> check_alignment self obj reference)"

text \<open>\<^verbatim>\<open>StateManager.get_alignment_score\<close>\<close>

definition get_alignment_score :: "state_manager \<Rightarrow> string fset \<Rightarrow> real" where
  "get_alignment_score self goal_relationships =
     (let current_rels = get_relationships self in
      if goal_relationships = {||} then 1
      else real (fcard (current_rels |\<inter>| goal_relationships)) / real (fcard goal_relationships))"

text \<open>\<^verbatim>\<open>StateManager.get_position\<close>\<close>

definition get_position :: "state_manager \<Rightarrow> string \<Rightarrow> position option" where
  "get_position self obj = objects self obj"

text \<open>\<^verbatim>\<open>StateManager.get_state_snapshot\<close>: the three entries of the returned dictionary
  (the two lists are listings of sets in no specified order, kept as sets).\<close>

definition get_state_snapshot ::
  "state_manager \<Rightarrow> (string \<rightharpoonup> position) \<times> string fset \<times> string fset" where
  "get_state_snapshot self = (objects self, get_relationships self, intervened_objects self)"

text \<open>\<^verbatim>\<open>StateManager.reset_to_initial\<close>\<close>

definition reset_to_initial :: "state_manager \<Rightarrow> state_manager" where
  "reset_to_initial self =
     self\<lparr> objects := initial_objects self, intervened_objects := {||} \<rparr>"

text \<open>\<^verbatim>\<open>StateManager.compute_displacement\<close>\<close>

definition compute_displacement :: "state_manager \<Rightarrow> string \<Rightarrow> real" where
  "compute_displacement self obj =
     (case (objects self obj, initial_objects self obj) of
        (Some (cx, cy, cz), Some (ix, iy, iz)) \<Rightarrow>
          sqrt ((cx - ix)\<^sup>2 + (cy - iy)\<^sup>2 + (cz - iz)\<^sup>2)
      | _ \<Rightarrow> 0)"

text \<open>\<^verbatim>\<open>StateManager.get_critical_relationships\<close>\<close>

definition is_critical :: "string \<Rightarrow> bool" where
  "is_critical rel =
     (startswith rel ''On('' \<and>
      (let parts = split_on (CHR '','') (slice_3_m1 rel) in
       length parts = 2 \<and>
       (let obj_a = strip (parts ! 0); obj_b = strip (parts ! 1) in
        isdigit obj_a \<and> (isdigit obj_b \<or> obj_b = ''0''))))"

definition get_critical_relationships :: "state_manager \<Rightarrow> string fset" where
  "get_critical_relationships self = ffilter is_critical (relationships self)"

section \<open>interventions.py\<close>

text \<open>
  Python's \<^verbatim>\<open>float(s)\<close> on a stripped string of ASCII characters, following the grammar of
  the language reference:
  \<^verbatim>\<open>
  floatvalue ::= [sign] (floatnumber | infinity | nan)
  floatnumber ::= number [exponent]
  number ::= [digitpart] "." digitpart | digitpart ["."]
  exponent ::= ("e" | "E") [sign] digitpart
  digitpart ::= digit (["_"] digit)*
  infinity ::= "Infinity" | "inf"     nan ::= "nan"     (case is not significant)
  \<close>
  The result \<open>None\<close> stands for \<^verbatim>\<open>ValueError\<close>. A literal that denotes a real number small
  enough to be a finite \<^verbatim>\<open>float\<close> reads as \<open>Finite\<close> of that number; the spellings of
  infinity and NaN, and a literal so large that it rounds to infinity, read as
  \<open>NonFinite\<close>: the call succeeds with a value that is no real number.
\<close>

datatype float_lit = Finite real | NonFinite

definition digit_val :: "char \<Rightarrow> nat" where
  "digit_val c = of_char c - 48"

definition nat_of_digits :: "string \<Rightarrow> nat" where
  "nat_of_digits ds = foldl (\<lambda>n c. 10 * n + digit_val c) 0 ds"

text \<open>\<^verbatim>\<open>digitpart\<close>: digits, with single underscores between digits; and its value.\<close>

fun digitpart :: "string \<Rightarrow> bool" where
  "digitpart [] = False"
| "digitpart [c] = is_digit c"
| "digitpart (c # d # r) =
     (is_digit c \<and> (if d = CHR ''_'' then digitpart r else digitpart (d # r)))"

definition digits_value :: "string \<Rightarrow> nat" where
  "digits_value ds = nat_of_digits (filter is_digit ds)"

definition split_sign :: "string \<Rightarrow> real \<times> string" where
  "split_sign s =
     (case s of
        [] \<Rightarrow> (1, [])
      | c # r \<Rightarrow> if c = CHR ''-'' then (- 1, r) else if c = CHR ''+'' then (1, r) else (1, s))"

text \<open>\<^verbatim>\<open>exponent\<close>, or nothing: whether the exponent is negative, and its absolute value.\<close>

definition parse_exponent :: "string \<Rightarrow> (bool \<times> nat) option" where
  "parse_exponent s =
     (case s of
        [] \<Rightarrow> Some (False, 0)
      | c # r \<Rightarrow>
          if c = CHR ''e'' \<or> c = CHR ''E'' then
            (case split_sign r of (sg, ds) \<Rightarrow>
               if digitpart ds then Some (sg < 0, digits_value ds) else None)
          else None)"

text \<open>\<^verbatim>\<open>number\<close>\<close>

definition parse_number :: "string \<Rightarrow> real option" where
  "parse_number m =
     (let ip = takeWhile (\<lambda>c. c \<noteq> CHR ''.'') m;
          rest = dropWhile (\<lambda>c. c \<noteq> CHR ''.'') m
      in case rest of
           [] \<Rightarrow> if digitpart ip then Some (real (digits_value ip)) else None
         | d # fp \<Rightarrow>
             if (ip = [] \<and> digitpart fp) \<or> (digitpart ip \<and> (fp = [] \<or> digitpart fp))
             then Some (real (digits_value ip) +
                        real (digits_value fp) / 10 ^ length (filter is_digit fp))
             else None)"

definition to_lower :: "char \<Rightarrow> char" where
  "to_lower c =
     (if 65 \<le> (of_char c :: nat) \<and> (of_char c :: nat) \<le> 90 then char_of (of_char c + 32 :: nat)
      else c)"

definition is_exponent_mark :: "char \<Rightarrow> bool" where
  "is_exponent_mark c = (c = CHR ''e'' \<or> c = CHR ''E'')"

text \<open>The least magnitude that rounds to infinity: halfway between the largest finite
  \<^verbatim>\<open>float\<close> and \<open>2 ^ 1024\<close>.\<close>

definition float_overflow :: real where
  "float_overflow = 2 ^ 1024 - 2 ^ 970"

definition py_float :: "string \<Rightarrow> float_lit option" where
  "py_float s =
     (case split_sign s of (sg, r) \<Rightarrow>
        if map to_lower r \<in> {''inf'', ''infinity'', ''nan''} then Some NonFinite
        else
          (case parse_number (takeWhile (\<lambda>c. \<not> is_exponent_mark c) r) of
             None \<Rightarrow> None
           | Some v \<Rightarrow>
               (case parse_exponent (dropWhile (\<lambda>c. \<not> is_exponent_mark c) r) of
                  None \<Rightarrow> None
                | Some (negative, n) \<Rightarrow>
                    (let x = sg * (if negative then v / 10 ^ n else v * 10 ^ n)
                     in Some (if \<bar>x\<bar> \<ge> float_overflow then NonFinite else Finite x)))))"

text \<open>The applier holds a reference to its state manager; the record holds the manager
  itself, so what \<^verbatim>\<open>state_mgr\<close> and \<^verbatim>\<open>applier.state_manager\<close> alias in the source is one
  field here.\<close>

record intervention_applier =
  state_manager :: state_manager
  shift_reward :: real

text \<open>\<^verbatim>\<open>InterventionApplier.__init__\<close>\<close>

definition InterventionApplier :: "state_manager \<Rightarrow> real \<Rightarrow> intervention_applier" where
  "InterventionApplier sm sr = \<lparr> state_manager = sm, shift_reward = sr \<rparr>"

definition valid_directions :: "string list" where
  "valid_directions = [''left'', ''right'', ''forward'', ''back'']"

text \<open>\<^verbatim>\<open>InterventionApplier.parse_action\<close>: \<open>None\<close> is the pair \<^verbatim>\<open>(None, None)\<close>. The
  magnitude is converted before the direction is validated; both failures give the same
  result.\<close>

definition parse_action :: "string \<Rightarrow> (string \<times> float_lit) option" where
  "parse_action action =
     (let parts = split_on (CHR '','') action in
      if length parts \<noteq> 2 then None
      else let direction = strip (parts ! 0) in
        (case py_float (strip (parts ! 1)) of
           None \<Rightarrow> None
         | Some magnitude \<Rightarrow>
             if direction \<notin> set valid_directions then None
             else Some (direction, magnitude)))"

text \<open>\<^verbatim>\<open>any(d in action for d in ['left', 'right', 'forward', 'back'])\<close>\<close>

definition has_direction_token :: "string \<Rightarrow> bool" where
  "has_direction_token action = list_ex (\<lambda>d. str_contains d action) valid_directions"

text \<open>
  What a call of the applier returns: the pair \<^verbatim>\<open>(success, reward_delta)\<close>, or, when the
  call shifts a known object by an infinite or NaN magnitude, \<open>NonFinitePosition\<close>: the
  code then returns \<^verbatim>\<open>(True, shift_reward)\<close> and stores a coordinate that is no real number,
  for which the manager of this model has no value. Such a call is outside the model;
  nothing is said about the manager after it, and the applier of the result is the one
  before the call.
\<close>

datatype apply_outcome = Returned bool real | NonFinitePosition

text \<open>\<^verbatim>\<open>InterventionApplier._apply_shift\<close>: the applier after the call and what is returned.
  With an unknown object \<^verbatim>\<open>apply_shift\<close> returns \<^verbatim>\<open>False\<close> before it looks at the magnitude.\<close>

definition apply_shift_action ::
  "intervention_applier \<Rightarrow> string \<Rightarrow> string \<Rightarrow> intervention_applier \<times> apply_outcome" where
  "apply_shift_action self obj action =
     (case parse_action action of
        None \<Rightarrow> (self, Returned False 0)
      | Some (direction, NonFinite) \<Rightarrow>
          (case objects (state_manager self) obj of
             None \<Rightarrow> (self, Returned False 0)
           | Some pos \<Rightarrow> (self, NonFinitePosition))
      | Some (direction, Finite magnitude) \<Rightarrow>
          (case apply_shift (state_manager self) obj direction magnitude of (sm, success) \<Rightarrow>
             if \<not> success then (self\<lparr> state_manager := sm \<rparr>, Returned False 0)
             else (self\<lparr> state_manager := sm \<rparr>,
                   Returned success (if success then shift_reward self else 0))))"

text \<open>\<^verbatim>\<open>InterventionApplier._apply_swap\<close> and \<^verbatim>\<open>_apply_pick_place\<close>: placeholders.\<close>

definition apply_swap ::
  "intervention_applier \<Rightarrow> string \<Rightarrow> intervention_applier \<times> apply_outcome" where
  "apply_swap self action = (self, Returned False 0)"

definition apply_pick_place ::
  "intervention_applier \<Rightarrow> string \<Rightarrow> string \<Rightarrow> intervention_applier \<times> apply_outcome" where
  "apply_pick_place self obj action = (self, Returned False 0)"

text \<open>\<^verbatim>\<open>InterventionApplier.apply\<close>\<close>

definition apply_intervention ::
  "intervention_applier \<Rightarrow> string \<Rightarrow> string \<Rightarrow> intervention_applier \<times> apply_outcome" where
  "apply_intervention self obj action =
     (if CHR '','' \<in> set action \<and> has_direction_token action then apply_shift_action self obj action
      else if obj = ''Swap'' \<and> CHR '','' \<in> set action then apply_swap self action
      else if str_contains ''pick'' action \<or> str_contains ''place'' action
        then apply_pick_place self obj action
      else (self, Returned False 0))"

text \<open>\<^verbatim>\<open>create_intervention_applier\<close>\<close>

definition create_intervention_applier ::
  "initial_state \<Rightarrow> real \<Rightarrow> real \<Rightarrow> intervention_applier" where
  "create_intervention_applier init sr thr = InterventionApplier (StateManager init thr) sr"

section \<open>reward\_shaper.py\<close>

type_synonym intervention = "string \<times> string"

record reward_shaper =
  goal :: "string fset"
  shift_bonus :: real
  depth_penalty :: real

text \<open>\<^verbatim>\<open>RewardShaper.__init__\<close>\<close>

definition RewardShaper :: "string fset \<Rightarrow> real \<Rightarrow> real \<Rightarrow> reward_shaper" where
  "RewardShaper goal_symbolic_set sb dp =
     \<lparr> goal = goal_symbolic_set, shift_bonus = sb, depth_penalty = dp \<rparr>"

text \<open>\<^verbatim>\<open>RewardShaper.step_reward\<close>\<close>

definition step_reward :: "reward_shaper \<Rightarrow> string fset \<Rightarrow> string fset \<Rightarrow> string \<Rightarrow> real" where
  "step_reward self prev_rels curr_rels action =
     (let reward = 0 in
      if has_direction_token action then reward + shift_bonus self else reward)"

text \<open>\<^verbatim>\<open>RewardShaper.final_reward\<close>\<close>

definition final_reward :: "reward_shaper \<Rightarrow> string fset \<Rightarrow> intervention list \<Rightarrow> real" where
  "final_reward self final_rels ivs =
     (let base = (if fcard (goal self) = 0 then 1
                  else real (fcard (final_rels |\<inter>| goal self)) / real (fcard (goal self)));
          penalty = depth_penalty self * real (length ivs)
      in base - penalty)"

section \<open>mcts.py\<close>

subsection \<open>Tree nodes and the planner\<close>

text \<open>
  An \<^verbatim>\<open>MCTSNode\<close> object lives in a store indexed by node identifiers; \<^verbatim>\<open>parent\<close> and
  \<^verbatim>\<open>children\<close> hold identifiers, so that the child-to-parent back references and the
  in-place updates of \<^verbatim>\<open>select\<close>, \<^verbatim>\<open>expand\<close> and \<^verbatim>\<open>backpropagate\<close> are updates of the store.
\<close>

record mcts_node =
  interventions :: "intervention list"
  parent :: "nat option"
  children :: "nat list"
  visits :: nat
  total_reward :: real
  untried_actions :: "intervention list option"
  local_violations :: "intervention fset"

text \<open>\<^verbatim>\<open>MCTSNode.__init__\<close>, with \<^verbatim>\<open>interventions or []\<close>.\<close>

definition MCTSNode :: "intervention list option \<Rightarrow> nat option \<Rightarrow> mcts_node" where
  "MCTSNode ivs par =
     \<lparr> interventions = (case ivs of None \<Rightarrow> [] | Some l \<Rightarrow> l),
       parent = par,
       children = [],
       visits = 0,
       total_reward = 0,
       untried_actions = None,
       local_violations = {||} \<rparr>"

text \<open>The scenario dictionary, with the keys that \<^verbatim>\<open>main\<close> reads. The planner stores it
  and never reads it.\<close>

record scenario =
  sc_symbolic_goal :: "string list"
  sc_intv_space :: "(string \<times> string list) list"
  sc_max_rollout_depth :: int
  sc_termination_threshold :: real
  sc_shift_bonus :: real
  sc_depth_penalty :: real

text \<open>
  The attributes of \<^verbatim>\<open>CausalMCTS\<close>, followed by the ambient state its methods act on: the
  node store \<open>heap\<close> with the next free identifier \<open>next_id\<close>, and the state \<open>rng\<close> of the
  module-level random generator, a stream of raw draws. Printing is not modelled.
\<close>

record causal_mcts =
  initial_state :: initial_state
  goal_state :: "string fset"
  scenario :: scenario
  reward_shaper :: reward_shaper
  intervention_space :: "(string \<times> string list) list"
  max_rollout_depth :: int
  termination_threshold :: real
  exploration_constant :: real
  reward_history :: "(intervention list \<times> real) list"
  intervention_trace :: "(intervention list \<times> nat \<times> real \<times> real) list"
  solution_found :: bool
  current_relationships :: "string fset"
  heap :: "nat \<Rightarrow> mcts_node"
  next_id :: nat
  rng :: "nat stream"


subsection \<open>Legal actions, expansion\<close>

text \<open>\<^verbatim>\<open>CausalMCTS.get_legal_actions\<close>: the two nested loops over the intervention space,
  in order, with the two \<^verbatim>\<open>continue\<close> tests.\<close>

definition get_legal_actions :: "causal_mcts \<Rightarrow> intervention list \<Rightarrow> nat \<Rightarrow> intervention list" where
  "get_legal_actions self ivs node =
     concat (map (\<lambda>(obj, actions).
       concat (map (\<lambda>action.
         if (obj, action) |\<in>| local_violations (heap self node) then []
         else if obj \<in> set (map fst ivs) \<and> obj \<noteq> ''Swap'' then []
         else [(obj, action)]) actions)) (intervention_space self))"

text \<open>Assignment to \<^verbatim>\<open>node.untried_actions\<close>\<close>

definition set_untried :: "causal_mcts \<Rightarrow> nat \<Rightarrow> intervention list \<Rightarrow> causal_mcts" where
  "set_untried self node acts =
     self\<lparr> heap := (heap self)(node := (heap self node)\<lparr> untried_actions := Some acts \<rparr>) \<rparr>"

text \<open>\<^verbatim>\<open>if node.untried_actions is None: node.untried_actions = self.get_legal_actions(...)\<close>\<close>

definition init_untried :: "causal_mcts \<Rightarrow> nat \<Rightarrow> causal_mcts" where
  "init_untried self node =
     (if untried_actions (heap self node) = None
      then set_untried self node (get_legal_actions self (interventions (heap self node)) node)
      else self)"

text \<open>\<^verbatim>\<open>CausalMCTS.expand\<close>: the planner after the call and the returned node.\<close>

definition expand :: "causal_mcts \<Rightarrow> nat \<Rightarrow> causal_mcts \<times> nat" where
  "expand self node =
     (let self1 = init_untried self node; n = heap self1 node in
      case untried_actions n of
        Some (action # rest) \<Rightarrow>
          (let new_interventions = interventions n @ [action];
               child = next_id self1
           in (self1\<lparr> heap := (heap self1)
                          (node := n\<lparr> untried_actions := Some rest, children := children n @ [child] \<rparr>,
                           child := MCTSNode (Some new_interventions) (Some node)),
                      next_id := Suc child \<rparr>,
               child))
      | _ \<Rightarrow> (self1, node))"

subsection \<open>Selection\<close>

text \<open>A UCT score: a real number or one of the two infinities of \<^verbatim>\<open>float\<close>.\<close>

datatype score = NegInf | Fin real | PosInf

fun score_add :: "real \<Rightarrow> score \<Rightarrow> score" where
  "score_add a NegInf = NegInf"
| "score_add a (Fin b) = Fin (a + b)"
| "score_add a PosInf = PosInf"

fun score_gt :: "score \<Rightarrow> score \<Rightarrow> bool" where
  "score_gt NegInf _ = False"
| "score_gt (Fin a) NegInf = True"
| "score_gt (Fin a) (Fin b) = (a > b)"
| "score_gt (Fin a) PosInf = False"
| "score_gt PosInf PosInf = False"
| "score_gt PosInf _ = True"

text \<open>The score of one child in \<^verbatim>\<open>_best_child\<close>: \<^verbatim>\<open>exploit + explore\<close>.\<close>

definition uct_score :: "real \<Rightarrow> mcts_node \<Rightarrow> mcts_node \<Rightarrow> score" where
  "uct_score c node child =
     (let exploit = (if visits child > 0 then total_reward child / real (visits child) else 0);
          explore = (if visits child > 0 \<and> visits node > 0
                     then Fin (c * sqrt (ln (real (visits node)) / real (visits child)))
                     else PosInf)
      in score_add exploit explore)"

text \<open>The body of the loop of \<^verbatim>\<open>_best_child\<close>, on the pair of \<^verbatim>\<open>best_child\<close> and
  \<^verbatim>\<open>best_score\<close>.\<close>

definition uct_step :: "causal_mcts \<Rightarrow> nat \<Rightarrow> nat option \<times> score \<Rightarrow> nat \<Rightarrow> nat option \<times> score" where
  "uct_step self node st child =
     (case st of (best, best_score) \<Rightarrow>
        (let sc = uct_score (exploration_constant self) (heap self node) (heap self child)
         in if score_gt sc best_score then (Some child, sc) else (best, best_score)))"

text \<open>\<^verbatim>\<open>CausalMCTS._best_child\<close>: \<open>None\<close> is Python's \<^verbatim>\<open>None\<close>, returned when no child scored
  above minus infinity.\<close>

definition best_child :: "causal_mcts \<Rightarrow> nat \<Rightarrow> nat option" where
  "best_child self node =
     fst (foldl (uct_step self node) (None, NegInf) (children (heap self node)))"

text \<open>\<^verbatim>\<open>CausalMCTS.select\<close>: the \<^verbatim>\<open>while True\<close> loop. \<open>None\<close> means that the call does not
  return a node: the loop runs forever, or \<^verbatim>\<open>_best_child\<close> returned \<^verbatim>\<open>None\<close> and the
  attribute access on it raises.\<close>

partial_function (option) select :: "causal_mcts \<Rightarrow> nat \<Rightarrow> (causal_mcts \<times> nat) option" where
  "select self node =
     (if untried_actions (heap self node) \<noteq> None \<and> untried_actions (heap self node) \<noteq> Some []
      then Some (self, node)
      else if children (heap self node) \<noteq> [] then
        (case best_child self node of
           None \<Rightarrow> None
         | Some c \<Rightarrow> select (init_untried self c) c)
      else Some (self, node))"

subsection \<open>Rollout\<close>

text \<open>
  A rollout that applies a shift with outcome \<open>NonFinitePosition\<close> leaves the real-valued
  model: the loops and \<^verbatim>\<open>rollout\<close> itself then give \<open>None\<close>.
\<close>

text \<open>The first two statements of \<^verbatim>\<open>rollout\<close>: the fresh state manager and its applier.\<close>

definition rollout_applier :: "causal_mcts \<Rightarrow> intervention_applier" where
  "rollout_applier self =
     (let state_mgr = StateManager (initial_state self) (5 / 1000)
      in InterventionApplier state_mgr 0)"

text \<open>The body of the first loop of \<^verbatim>\<open>rollout\<close>, over the node's interventions; the state
  is the applier, \<^verbatim>\<open>prev_rels\<close> and \<^verbatim>\<open>shaped_reward\<close>.\<close>

definition rollout_prefix_step ::
  "reward_shaper \<Rightarrow> intervention_applier \<times> string fset \<times> real \<Rightarrow> intervention \<Rightarrow>
   (intervention_applier \<times> string fset \<times> real) option" where
  "rollout_prefix_step rs st iv =
     (case (st, iv) of ((applier, prev_rels, shaped_reward), (obj, action)) \<Rightarrow>
        (case apply_intervention applier obj action of
           (applier1, NonFinitePosition) \<Rightarrow> None
         | (applier1, Returned success delta) \<Rightarrow>
             (let current_rels = get_relationships (state_manager applier1)
              in Some (applier1, current_rels,
                       shaped_reward + step_reward rs prev_rels current_rels action + delta))))"

text \<open>The first loop.\<close>

fun rollout_prefix ::
  "reward_shaper \<Rightarrow> intervention_applier \<times> string fset \<times> real \<Rightarrow> intervention list \<Rightarrow>
   (intervention_applier \<times> string fset \<times> real) option" where
  "rollout_prefix rs st [] = Some st"
| "rollout_prefix rs st (iv # ivs) =
     (case rollout_prefix_step rs st iv of
        None \<Rightarrow> None
      | Some st1 \<Rightarrow> rollout_prefix rs st1 ivs)"

text \<open>The alignment bonus, in the branch taken for at most one intervention (with the
  position tests of the debug print) and in the other branch.\<close>

definition tracked_objects :: "string list" where
  "tracked_objects = [''1'', ''2'', ''3'', ''4'']"

definition misalignment_bonus_debug :: "state_manager \<Rightarrow> real" where
  "misalignment_bonus_debug sm =
     foldl (\<lambda>b obj.
              if get_position sm obj \<noteq> None \<and> get_position sm ''0'' \<noteq> None
              then (if \<not> check_misalignment sm obj ''0'' then b + 25 / 100 else b)
              else b) 0 tracked_objects"

definition misalignment_bonus_normal :: "state_manager \<Rightarrow> real" where
  "misalignment_bonus_normal sm =
     foldl (\<lambda>b obj. if \<not> check_misalignment sm obj ''0'' then b + 25 / 100 else b) 0 tracked_objects"

text \<open>\<^verbatim>\<open>random.choice(seq)\<close> on a non-empty list: an element at an index drawn from the
  generator.\<close>

definition random_choice :: "nat stream \<Rightarrow> 'a list \<Rightarrow> 'a \<times> nat stream" where
  "random_choice g xs = (xs ! (shd g mod length xs), stl g)"

text \<open>The second loop of \<^verbatim>\<open>rollout\<close>, \<^verbatim>\<open>for _ in range(suffix_budget)\<close> with its
  \<^verbatim>\<open>break\<close>; the state is the generator, the applier, \<^verbatim>\<open>prev_rels\<close>,
  \<^verbatim>\<open>rollout_history\<close> and \<^verbatim>\<open>shaped_reward\<close>.\<close>

fun rollout_suffix ::
  "causal_mcts \<Rightarrow> nat \<Rightarrow> nat \<Rightarrow>
   nat stream \<times> intervention_applier \<times> string fset \<times> intervention list \<times> real \<Rightarrow>
   (nat stream \<times> intervention_applier \<times> string fset \<times> intervention list \<times> real) option" where
  "rollout_suffix self node 0 st = Some st"
| "rollout_suffix self node (Suc k) (g, applier, prev_rels, rollout_history, shaped_reward) =
     (let valid_actions = get_legal_actions self rollout_history node in
      if valid_actions = [] then Some (g, applier, prev_rels, rollout_history, shaped_reward)
      else
        (case random_choice g valid_actions of ((obj, action), g1) \<Rightarrow>
           (case apply_intervention applier obj action of
              (applier1, NonFinitePosition) \<Rightarrow> None
            | (applier1, Returned success delta) \<Rightarrow>
                (let current_rels = get_relationships (state_manager applier1)
                 in rollout_suffix self node k
                      (g1, applier1, current_rels, rollout_history @ [(obj, action)],
                       shaped_reward + step_reward (reward_shaper self) prev_rels current_rels action
                         + delta)))))"

text \<open>\<^verbatim>\<open>CausalMCTS.rollout\<close>: the planner after the call (history log and generator) and
  the returned reward.\<close>

definition rollout :: "causal_mcts \<Rightarrow> nat \<Rightarrow> (causal_mcts \<times> real) option" where
  "rollout self node =
     (let applier = rollout_applier self;
          prev_rels = fset_of_list (is_relationships (initial_state self));
          ivs = interventions (heap self node)
      in case rollout_prefix (reward_shaper self) (applier, prev_rels, 0) ivs of
           None \<Rightarrow> None
         | Some (applier1, prev_rels1, shaped1) \<Rightarrow>
        (let current_rels = get_relationships (state_manager applier1);
             shaped2 = shaped1 + final_reward (reward_shaper self) current_rels ivs;
             misalignment_bonus =
               (if length ivs \<le> 1 then misalignment_bonus_debug (state_manager applier1)
                else misalignment_bonus_normal (state_manager applier1));
             shaped3 = shaped2 + misalignment_bonus
         in if shaped3 \<ge> termination_threshold self
            then Some (self\<lparr> reward_history := reward_history self @ [(ivs, shaped3)] \<rparr>, shaped3)
            else
              (let suffix_budget = nat (max 0 (max_rollout_depth self - int (length ivs)))
               in case rollout_suffix self node suffix_budget
                         (rng self, applier1, prev_rels1, ivs, shaped3) of
                    None \<Rightarrow> None
                  | Some (g, applier2, prev_rels2, rollout_history, shaped4) \<Rightarrow>
                 (let final_rels = get_relationships (state_manager applier2);
                      shaped5 = shaped4 + final_reward (reward_shaper self) final_rels rollout_history
                  in Some (self\<lparr> reward_history := reward_history self @ [(rollout_history, shaped5)],
                                  rng := g \<rparr>,
                           shaped5)))))"

subsection \<open>Backpropagation\<close>

text \<open>The body of the loop of \<^verbatim>\<open>backpropagate\<close> at node \<open>n\<close>: the counters of the node, the
  violations of its parent, the trace.\<close>

definition backpropagate_step :: "causal_mcts \<Rightarrow> nat \<Rightarrow> real \<Rightarrow> causal_mcts" where
  "backpropagate_step self n reward =
     (let nd = (heap self n)\<lparr> visits := visits (heap self n) + 1,
                              total_reward := total_reward (heap self n) + reward \<rparr>;
          h1 = (heap self)(n := nd);
          h2 = (case parent nd of
                  None \<Rightarrow> h1
                | Some p \<Rightarrow>
                    h1(p := (h1 p)\<lparr> local_violations :=
                                      local_violations (h1 p) |\<union>| local_violations nd \<rparr>));
          avg_reward = total_reward nd / real (visits nd)
      in self\<lparr> heap := h2,
               intervention_trace := intervention_trace self @
                 [(interventions nd, visits nd, avg_reward, reward)] \<rparr>)"

text \<open>\<^verbatim>\<open>CausalMCTS.backpropagate\<close>: the loop \<^verbatim>\<open>while node is not None\<close> along the parent
  references; \<open>None\<close> as a result means that the loop does not end.\<close>

partial_function (option) backpropagate ::
  "causal_mcts \<Rightarrow> nat option \<Rightarrow> real \<Rightarrow> causal_mcts option" where
  "backpropagate self node reward =
     (case node of
        None \<Rightarrow> Some self
      | Some n \<Rightarrow> backpropagate (backpropagate_step self n reward) (parent (heap self n)) reward)"

subsection \<open>The search loop\<close>

text \<open>\<^verbatim>\<open>max(xs, key=f)\<close> on a non-empty list, given as head and tail: the first element
  whose key is maximal.\<close>

fun max_by_key :: "('a \<Rightarrow> real) \<Rightarrow> 'a \<Rightarrow> 'a list \<Rightarrow> 'a" where
  "max_by_key f best [] = best"
| "max_by_key f best (x # xs) = max_by_key f (if f x > f best then x else best) xs"

text \<open>The key of the final \<^verbatim>\<open>max\<close> in \<^verbatim>\<open>search_resolution\<close>.\<close>

definition average_reward :: "mcts_node \<Rightarrow> real" where
  "average_reward c = (if visits c \<noteq> 0 then total_reward c / real (visits c) else 0)"

text \<open>
  The loop \<^verbatim>\<open>for i in range(iterations)\<close> of \<^verbatim>\<open>search_resolution\<close>: \<open>search_loop self root_id i k\<close>
  runs the iterations \<open>i, \<dots>, i + k - 1\<close>. The inner result is \<open>Some (interventions, i)\<close>
  when an iteration executes \<^verbatim>\<open>return\<close>, and \<open>None\<close> when the range is exhausted. The outer
  result is \<open>None\<close> when the loop yields no value of the model: a call of \<^verbatim>\<open>select\<close> or
  \<^verbatim>\<open>backpropagate\<close> does not return, or a rollout leaves the real-valued model.
\<close>

fun search_loop ::
  "causal_mcts \<Rightarrow> nat \<Rightarrow> nat \<Rightarrow> nat \<Rightarrow> (causal_mcts \<times> (intervention list \<times> nat) option) option" where
  "search_loop self root_id i 0 = Some (self, None)"
| "search_loop self root_id i (Suc k) =
     (case select self root_id of
        None \<Rightarrow> None
      | Some (self1, node) \<Rightarrow>
          (case expand self1 node of (self2, child) \<Rightarrow>
             if interventions (heap self2 child) = [] then search_loop self2 root_id (Suc i) k
             else if solution_found self2 then
               (if reward_history self2 \<noteq> [] then Some (self2, Some (fst (last (reward_history self2)), i))
                else Some (self2, Some (interventions (heap self2 child), i)))
             else
               (case rollout self2 child of
                  None \<Rightarrow> None
                | Some (self3, reward) \<Rightarrow>
                  (case backpropagate self3 (Some child) reward of
                     None \<Rightarrow> None
                   | Some self4 \<Rightarrow>
                       if reward \<ge> termination_threshold self4
                       then Some (self4\<lparr> solution_found := True \<rparr>,
                                  Some (interventions (heap self4 child), i))
                       else search_loop self4 root_id (Suc i) k))))"

text \<open>The statements of \<^verbatim>\<open>search_resolution\<close> before the loop: a new root node with its
  untried actions. The local variable \<^verbatim>\<open>root\<close> is \<open>root_id\<close>.\<close>

definition search_init :: "causal_mcts \<Rightarrow> causal_mcts \<times> nat" where
  "search_init self =
     (let root_id = next_id self;
          self0 = self\<lparr> heap := (heap self)(root_id := MCTSNode None None), next_id := Suc root_id \<rparr>;
          base_actions = get_legal_actions self0 [] root_id
      in (set_untried self0 root_id base_actions, root_id))"

text \<open>\<^verbatim>\<open>CausalMCTS.search_resolution\<close>: the planner after the call, the returned sequence
  and the returned iteration count; \<open>None\<close> when the loop yields no value.\<close>

definition search_resolution ::
  "causal_mcts \<Rightarrow> int \<Rightarrow> (causal_mcts \<times> intervention list \<times> int) option" where
  "search_resolution self iterations =
     (case search_init self of (self1, root_id) \<Rightarrow>
        (case search_loop self1 root_id 0 (nat iterations) of
           None \<Rightarrow> None
         | Some (self2, Some (ivs, i)) \<Rightarrow> Some (self2, ivs, int i)
         | Some (self2, None) \<Rightarrow>
             (case children (heap self2 root_id) of
                c # cs \<Rightarrow>
                  (let best = max_by_key (\<lambda>c. average_reward (heap self2 c)) c cs
                   in Some (self2, interventions (heap self2 best), iterations))
              | [] \<Rightarrow> Some (self2, [], iterations))))"

section \<open>Notions used to state the properties of the search\<close>

text \<open>
  One pass through the four phases, without the two \<^verbatim>\<open>return\<close> statements of the loop
  body: selection and expansion, then either the skip (\<open>None\<close>) or rollout and
  backpropagation, with the rolled-out node and the reward.
\<close>

definition mcts_iteration ::
  "causal_mcts \<Rightarrow> nat \<Rightarrow> (causal_mcts \<times> (nat \<times> real) option) option" where
  "mcts_iteration self root_id =
     (case select self root_id of
        None \<Rightarrow> None
      | Some (self1, node) \<Rightarrow>
          (case expand self1 node of (self2, child) \<Rightarrow>
             if interventions (heap self2 child) = [] then Some (self2, None)
             else
               (case rollout self2 child of
                  None \<Rightarrow> None
                | Some (self3, reward) \<Rightarrow>
                  (case backpropagate self3 (Some child) reward of
                     None \<Rightarrow> None
                   | Some self4 \<Rightarrow> Some (self4, Some (child, reward))))))"

text \<open>The planner after \<open>k\<close> such passes, with the number of passes that were not
  skipped.\<close>

fun run_iterations :: "causal_mcts \<Rightarrow> nat \<Rightarrow> nat \<Rightarrow> (causal_mcts \<times> nat) option" where
  "run_iterations self root_id 0 = Some (self, 0)"
| "run_iterations self root_id (Suc k) =
     (case mcts_iteration self root_id of
        None \<Rightarrow> None
      | Some (self1, outcome) \<Rightarrow>
          (case run_iterations self1 root_id k of
             None \<Rightarrow> None
           | Some (self2, n) \<Rightarrow> Some (self2, (if outcome = None then 0 else 1) + n)))"

text \<open>Pass \<open>j\<close> (counted from 0) rolls out node \<open>c\<close> with a reward that meets the
  termination threshold, and leaves the planner \<open>s\<close>.\<close>

definition success_at :: "causal_mcts \<Rightarrow> nat \<Rightarrow> nat \<Rightarrow> causal_mcts \<Rightarrow> nat \<Rightarrow> bool" where
  "success_at self root_id j s c =
     (case run_iterations self root_id j of
        None \<Rightarrow> False
      | Some (sj, n) \<Rightarrow>
          (case mcts_iteration sj root_id of
             Some (s1, Some (c1, reward)) \<Rightarrow>
               s1 = s \<and> c1 = c \<and> reward \<ge> termination_threshold self
           | _ \<Rightarrow> False))"

definition no_success_at :: "causal_mcts \<Rightarrow> nat \<Rightarrow> nat \<Rightarrow> bool" where
  "no_success_at self root_id j =
     (case run_iterations self root_id j of
        None \<Rightarrow> False
      | Some (sj, n) \<Rightarrow>
          (case mcts_iteration sj root_id of
             Some (s1, Some (c1, reward)) \<Rightarrow> reward < termination_threshold self
           | Some (s1, None) \<Rightarrow> True
           | None \<Rightarrow> False))"

text \<open>The sum of the visit counters of the children of a node.\<close>

definition children_visits :: "causal_mcts \<Rightarrow> nat \<Rightarrow> nat" where
  "children_visits self node = sum_list (map (\<lambda>c. visits (heap self c)) (children (heap self node)))"

text \<open>
  The shape of the store below a root: identifiers from the root up to \<open>next_id\<close> are the
  nodes of one tree; the root has no parent and the empty sequence; every other node has a
  non-empty sequence and a parent with a smaller identifier that lists it as a child;
  children are listed once, have larger identifiers and point back to their parent.
\<close>

definition wf_tree :: "causal_mcts \<Rightarrow> nat \<Rightarrow> bool" where
  "wf_tree self root_id =
     (root_id < next_id self \<and>
      parent (heap self root_id) = None \<and>
      interventions (heap self root_id) = [] \<and>
      (\<forall>n. root_id < n \<and> n < next_id self \<longrightarrow>
         interventions (heap self n) \<noteq> [] \<and>
         (\<exists>p. parent (heap self n) = Some p \<and> root_id \<le> p \<and> p < n \<and>
              n \<in> set (children (heap self p)))) \<and>
      (\<forall>n. root_id \<le> n \<and> n < next_id self \<longrightarrow>
         distinct (children (heap self n)) \<and>
         (\<forall>c \<in> set (children (heap self n)).
            n < c \<and> c < next_id self \<and> parent (heap self c) = Some n)))"

text \<open>The action pairs of the intervention space, in the order of \<^verbatim>\<open>get_legal_actions\<close>.\<close>

definition space_list :: "causal_mcts \<Rightarrow> intervention list" where
  "space_list self =
     concat (map (\<lambda>(obj, actions). map (Pair obj) actions) (intervention_space self))"

text \<open>No action descriptor of the intervention space has a magnitude that reads as
  infinity or NaN: the rollouts of such a planner stay within the real-valued model.\<close>

definition finite_space :: "causal_mcts \<Rightarrow> bool" where
  "finite_space self =
     list_all (\<lambda>(obj, action).
        case parse_action action of Some (d, NonFinite) \<Rightarrow> False | _ \<Rightarrow> True) (space_list self)"

text \<open>Every intervention recorded in the tree below a root, on a node or in a list of
  untried actions, is an action pair of the intervention space.\<close>

definition tree_in_space :: "causal_mcts \<Rightarrow> nat \<Rightarrow> bool" where
  "tree_in_space self root_id =
     (\<forall>n. root_id \<le> n \<and> n < next_id self \<longrightarrow>
        set (interventions (heap self n)) \<subseteq> set (space_list self) \<and>
        (\<forall>u. untried_actions (heap self n) = Some u \<longrightarrow> set u \<subseteq> set (space_list self)))"

text \<open>The constructor arguments of a planner.\<close>

definition config_of ::
  "causal_mcts \<Rightarrow> initial_state \<times> string fset \<times> scenario \<times> reward_shaper \<times>
                 (string \<times> string list) list \<times> int \<times> real \<times> real" where
  "config_of self =
     (initial_state self, goal_state self, scenario self, reward_shaper self,
      intervention_space self, max_rollout_depth self, termination_threshold self,
      exploration_constant self)"

text \<open>
  What the phases may change. Selection changes lists of untried actions only, and only
  from \<^verbatim>\<open>None\<close> to the legal actions of the node; backpropagation changes counters,
  rewards, violations and the trace only; expansion of a node with an untried action adds
  a child.
\<close>

definition untried_frame :: "causal_mcts \<Rightarrow> causal_mcts \<Rightarrow> bool" where
  "untried_frame self s =
     (s = self\<lparr> heap := heap s \<rparr> \<and>
      (\<forall>n. heap s n = (heap self n)\<lparr> untried_actions := untried_actions (heap s n) \<rparr>) \<and>
      (\<forall>n. untried_actions (heap s n) = untried_actions (heap self n) \<or>
           untried_actions (heap s n) =
             Some (get_legal_actions self (interventions (heap self n)) n)))"

definition stats_frame :: "causal_mcts \<Rightarrow> causal_mcts \<Rightarrow> bool" where
  "stats_frame self s =
     (s = self\<lparr> heap := heap s, intervention_trace := intervention_trace s \<rparr> \<and>
      (\<forall>n. heap s n = (heap self n)\<lparr> visits := visits (heap s n),
                                      total_reward := total_reward (heap s n),
                                      local_violations := local_violations (heap s n) \<rparr>))"

definition add_child :: "causal_mcts \<Rightarrow> nat \<Rightarrow> intervention \<Rightarrow> intervention list \<Rightarrow> causal_mcts" where
  "add_child s1 node action rest =
     s1\<lparr> heap := (heap s1)
            (node := (heap s1 node)\<lparr> untried_actions := Some rest,
                                     children := children (heap s1 node) @ [next_id s1] \<rparr>,
             next_id s1 := MCTSNode (Some (interventions (heap s1 node) @ [action])) (Some node)),
         next_id := Suc (next_id s1) \<rparr>"

text \<open>The invariant of the search loop.\<close>

definition search_inv :: "causal_mcts \<Rightarrow> nat \<Rightarrow> bool" where
  "search_inv self root_id =
     (wf_tree self root_id \<and> tree_in_space self root_id \<and> finite_space self)"

text \<open>What one pass, and what a run of the loop, leave behind.\<close>

definition iter_post :: "causal_mcts \<Rightarrow> nat \<Rightarrow> causal_mcts \<Rightarrow> (nat \<times> real) option \<Rightarrow> bool" where
  "iter_post self r s out =
     (wf_tree s r \<and> tree_in_space s r \<and>
      config_of s = config_of self \<and> solution_found s = solution_found self \<and>
      visits (heap s r) = visits (heap self r) + (if out = None then 0 else 1) \<and>
      children_visits s r = children_visits self r + (if out = None then 0 else 1) \<and>
      length (reward_history s) = length (reward_history self) + (if out = None then 0 else 1) \<and>
      (\<forall>c rw. out = Some (c, rw) \<longrightarrow> r < c \<and> c < next_id s))"

definition loop_post ::
  "causal_mcts \<Rightarrow> nat \<Rightarrow> nat \<Rightarrow> nat \<Rightarrow> causal_mcts \<Rightarrow> (intervention list \<times> nat) option \<Rightarrow> nat \<Rightarrow> bool" where
  "loop_post self r i k s res d =
     (wf_tree s r \<and> tree_in_space s r \<and> config_of s = config_of self \<and>
      visits (heap s r) = visits (heap self r) + d \<and>
      children_visits s r = children_visits self r + d \<and>
      length (reward_history s) = length (reward_history self) + d \<and>
      (\<forall>ivs j. res = Some (ivs, j) \<longrightarrow>
         i \<le> j \<and> j < i + k \<and> (\<exists>c. r < c \<and> c < next_id s \<and> ivs = interventions (heap s c))))"

section \<open>Calls on a state manager, and the data of the worked scenario\<close>

text \<open>A call of one of the methods of \<^verbatim>\<open>StateManager\<close> with its arguments, and its effect
  on the manager: the methods other than \<^verbatim>\<open>apply_shift\<close> and \<^verbatim>\<open>reset_to_initial\<close> assign
  to no attribute.\<close>

datatype sm_call =
    Call_apply_shift string string real
  | Call_get_relationships
  | Call_check_relationship_holds string
  | Call_check_alignment string string
  | Call_check_misalignment string string
  | Call_get_alignment_score "string fset"
  | Call_get_position string
  | Call_get_state_snapshot
  | Call_reset_to_initial
  | Call_compute_displacement string
  | Call_get_critical_relationships

fun sm_exec :: "state_manager \<Rightarrow> sm_call \<Rightarrow> state_manager" where
  "sm_exec self (Call_apply_shift obj direction magnitude) =
     fst (apply_shift self obj direction magnitude)"
| "sm_exec self Call_reset_to_initial = reset_to_initial self"
| "sm_exec self _ = self"

text \<open>The characters of the numeric literals read by \<open>py_float\<close>.\<close>

definition float_char :: "char \<Rightarrow> bool" where
  "float_char c =
     (is_digit c \<or> c \<in> {CHR ''+'', CHR ''-'', CHR ''.'', CHR ''e'', CHR ''E'', CHR ''_''})"

text \<open>The scenario of section 8 of the specification: two objects, one declared
  relationship, two shifts of object 1, goal \<^verbatim>\<open>On(1,0)\<close>, termination threshold 0.9 and
  depth penalty 0.05. The shift bonus, the rollout depth, the exploration constant and
  the random generator are left open.\<close>

definition scenario8_state :: initial_state where
  "scenario8_state =
     \<lparr> is_objects = [''0'' \<mapsto> (0, 0, 0), ''1'' \<mapsto> (2 / 100, 0, 0)],
       is_relationships = [''On(1,0)''] \<rparr>"




text \<open>A state manager on the scenario's objects with the alignment threshold 0.05, and an
  applier on it.\<close>

definition scenario8_manager :: state_manager where
  "scenario8_manager = StateManager scenario8_state (5 / 100)"

definition scenario8_applier :: intervention_applier where
  "scenario8_applier = InterventionApplier scenario8_manager 0"


section \<open>Properties of the string primitives\<close>

lemma split_on_no_sep: "sep \<notin> set s \<Longrightarrow> split_on sep s = [s]"
  by (induction s) auto

lemma split_on_append_sep:
  "sep \<notin> set u \<Longrightarrow> split_on sep (u @ sep # l) = u # split_on sep l"
  by (induction u) auto

lemma split_on_ne: "split_on sep s \<noteq> []"
  by (induction s) auto

lemma length_split_on: "length (split_on sep s) = Suc (count_list s sep)"
  by (induction s) (auto simp: split_on_ne)

lemma startswith_set: "startswith s d \<Longrightarrow> set d \<subseteq> set s"
  unfolding startswith_def by (metis set_take_subset)

lemma str_contains_set: "str_contains d s \<Longrightarrow> set d \<subseteq> set s"
proof (induction s)
  case Nil
  then show ?case by simp
next
  case (Cons c cs)
  from Cons.prems have "startswith (c # cs) d \<or> str_contains d cs" by simp
  then show ?case
  proof
    assume "startswith (c # cs) d"
    then show ?thesis by (rule startswith_set)
  next
    assume "str_contains d cs"
    with Cons.IH show ?thesis by auto
  qed
qed

lemma set_split_on: "set s \<subseteq> insert sep (\<Union> (set ` set (split_on sep s)))"
proof (induction s)
  case Nil
  then show ?case by simp
next
  case (Cons c cs)
  obtain p ps where e: "split_on sep cs = p # ps"
    using split_on_ne [of sep cs] by (cases "split_on sep cs") auto
  with Cons show ?case by auto
qed

lemma set_dropWhile_sub: "set xs \<subseteq> set (dropWhile P xs) \<union> {c. P c}"
proof
  fix x assume "x \<in> set xs"
  then have "x \<in> set (takeWhile P xs) \<or> x \<in> set (dropWhile P xs)"
    by (metis Un_iff set_append takeWhile_dropWhile_id)
  then show "x \<in> set (dropWhile P xs) \<union> {c. P c}"
    using set_takeWhileD [of x P xs] by blast
qed

lemma set_strip: "set s \<subseteq> set (strip s) \<union> {c. is_space c}"
proof
  fix x assume "x \<in> set s"
  with set_dropWhile_sub [of s is_space]
  have "x \<in> set (rev (dropWhile is_space s)) \<or> is_space x" by auto
  then show "x \<in> set (strip s) \<union> {c. is_space c}"
    using set_dropWhile_sub [of "rev (dropWhile is_space s)" is_space]
    unfolding strip_def set_rev by blast
qed

lemma digitpart_chars: "digitpart s \<Longrightarrow> c \<in> set s \<Longrightarrow> float_char c"
proof (induction s rule: digitpart.induct)
  case 1
  then show ?case by simp
next
  case (2 d)
  then show ?case by (simp add: float_char_def)
next
  case (3 a d r)
  from "3.prems"(1) have a: "is_digit a" by simp
  show ?case
  proof (cases "d = CHR ''_''")
    case True
    with "3.prems"(1) have "digitpart r" by simp
    with "3.IH"(1) [OF True] have "c \<in> set r \<Longrightarrow> float_char c" by simp
    with "3.prems"(2) a True show ?thesis by (auto simp: float_char_def)
  next
    case False
    with "3.prems"(1) have "digitpart (d # r)" by simp
    with "3.IH"(2) [OF False] have "c \<in> set (d # r) \<Longrightarrow> float_char c" by simp
    with "3.prems"(2) a show ?thesis by (auto simp: float_char_def)
  qed
qed

lemma split_sign_chars:
  assumes "split_sign s = (sg, r)" "c \<in> set s"
  shows "c \<in> set r \<or> float_char c"
proof (cases s)
  case Nil
  with assms show ?thesis by simp
next
  case (Cons a t)
  show ?thesis
  proof (cases "a = CHR ''-'' \<or> a = CHR ''+''")
    case True
    with assms Cons have "r = t" by (auto simp: split_sign_def)
    with assms(2) Cons True show ?thesis by (auto simp: float_char_def)
  next
    case False
    with assms Cons have "r = s" by (auto simp: split_sign_def)
    with assms(2) show ?thesis by simp
  qed
qed

lemma parse_exponent_chars:
  assumes "parse_exponent s = Some e" "c \<in> set s"
  shows "float_char c"
proof (cases s)
  case Nil
  with assms show ?thesis by simp
next
  case (Cons a r)
  obtain sg ds where sp: "split_sign r = (sg, ds)" by (cases "split_sign r")
  from assms(1) Cons sp have a: "a = CHR ''e'' \<or> a = CHR ''E''" and d: "digitpart ds"
    by (auto simp: parse_exponent_def split: if_splits)
  show ?thesis
  proof (cases "c = a")
    case True
    with a show ?thesis by (auto simp: float_char_def)
  next
    case False
    with assms(2) Cons have "c \<in> set r" by simp
    from split_sign_chars [OF sp this] digitpart_chars [OF d] show ?thesis by blast
  qed
qed

lemma parse_number_chars:
  assumes "parse_number m = Some v" "c \<in> set m"
  shows "float_char c"
proof -
  let ?ip = "takeWhile (\<lambda>c. c \<noteq> CHR ''.'') m" and ?rest = "dropWhile (\<lambda>c. c \<noteq> CHR ''.'') m"
  have m: "m = ?ip @ ?rest" by simp
  show ?thesis
  proof (cases ?rest)
    case Nil
    with assms(1) have "digitpart ?ip" by (simp add: parse_number_def Let_def split: if_splits)
    moreover have "m = ?ip" using m unfolding Nil by simp
    ultimately have "digitpart m" by simp
    from digitpart_chars [OF this assms(2)] show ?thesis .
  next
    case (Cons d fp)
    have d: "d = CHR ''.''"
      using hd_dropWhile [of "\<lambda>c. c \<noteq> CHR ''.''" m] Cons by auto
    from assms(1) Cons have v: "(?ip = [] \<and> digitpart fp) \<or> (digitpart ?ip \<and> (fp = [] \<or> digitpart fp))"
      by (simp add: parse_number_def Let_def split: if_splits)
    from assms(2) have "c \<in> set ?ip \<or> c \<in> set ?rest" by (metis Un_iff m set_append)
    then have "c \<in> set ?ip \<or> c = d \<or> c \<in> set fp" using Cons by auto
    then show ?thesis
    proof (elim disjE)
      assume i: "c \<in> set ?ip"
      then have "?ip \<noteq> []" by auto
      with v have "digitpart ?ip" by blast
      from digitpart_chars [OF this i] show ?thesis .
    next
      assume "c = d"
      with d show ?thesis by (simp add: float_char_def)
    next
      assume f: "c \<in> set fp"
      then have "fp \<noteq> []" by auto
      with v have "digitpart fp" by blast
      from digitpart_chars [OF this f] show ?thesis .
    qed
  qed
qed

lemma to_lower_p: "to_lower (CHR ''p'') = CHR ''p''"
  by (simp add: to_lower_def)

lemma nonfinite_spelling_no_p:
  assumes "map to_lower r \<in> {''inf'', ''infinity'', ''nan''}"
  shows "CHR ''p'' \<notin> set r"
proof
  assume "CHR ''p'' \<in> set r"
  then have "to_lower (CHR ''p'') \<in> set (map to_lower r)" by simp
  then have "CHR ''p'' \<in> set (map to_lower r)" by (simp only: to_lower_p)
  with assms show False by auto
qed

lemma p_not_float_char: "\<not> float_char (CHR ''p'')" "\<not> is_space (CHR ''p'')"
  by (simp_all add: float_char_def is_digit_def is_space_def)

lemma py_float_no_p:
  assumes "py_float s = Some v"
  shows "CHR ''p'' \<notin> set s"
proof
  assume p: "CHR ''p'' \<in> set s"
  obtain sg r where sp: "split_sign s = (sg, r)" by (cases "split_sign s")
  from split_sign_chars [OF sp p] p_not_float_char(1) have pr: "CHR ''p'' \<in> set r" by blast
  show False
  proof (cases "map to_lower r \<in> {''inf'', ''infinity'', ''nan''}")
    case True
    from nonfinite_spelling_no_p [OF True] pr show False by simp
  next
    case False
    let ?m = "takeWhile (\<lambda>c. \<not> is_exponent_mark c) r"
    let ?x = "dropWhile (\<lambda>c. \<not> is_exponent_mark c) r"
    from assms sp False obtain w where w: "parse_number ?m = Some w"
      by (cases "parse_number ?m") (simp_all add: py_float_def)
    from assms sp False w obtain e where e: "parse_exponent ?x = Some e"
      by (cases "parse_exponent ?x") (simp_all add: py_float_def)
    have "r = ?m @ ?x" by simp
    then have "CHR ''p'' \<in> set ?m \<or> CHR ''p'' \<in> set ?x" using pr by (metis Un_iff set_append)
    with parse_number_chars [OF w] parse_exponent_chars [OF e] p_not_float_char(1)
    show False by blast
  qed
qed

lemma parse_action_no_p:
  assumes "parse_action a = Some (d, m)"
  shows "CHR ''p'' \<notin> set a"
proof
  assume p: "CHR ''p'' \<in> set a"
  let ?ps = "split_on (CHR '','') a"
  from assms have len: "length ?ps = 2"
    by (auto simp: parse_action_def Let_def split: if_splits)
  from assms len have dir: "strip (?ps ! 0) \<in> set valid_directions"
    and fl: "py_float (strip (?ps ! 1)) = Some m"
    by (auto simp: parse_action_def Let_def split: if_splits option.splits)
  from len obtain u l where ps: "?ps = [u, l]"
    by (cases ?ps; simp) (metis Suc_length_conv length_0_conv)
  from set_split_on [of a "CHR '',''"] p ps have "CHR ''p'' \<in> set u \<or> CHR ''p'' \<in> set l"
    by auto
  then show False
  proof
    assume "CHR ''p'' \<in> set u"
    with set_strip [of u] p_not_float_char have "CHR ''p'' \<in> set (strip u)" by auto
    with dir ps show False by (auto simp: valid_directions_def)
  next
    assume "CHR ''p'' \<in> set l"
    with set_strip [of l] p_not_float_char have "CHR ''p'' \<in> set (strip l)" by auto
    with py_float_no_p [OF fl [unfolded ps]] show False
      using ps by simp
  qed
qed

lemma pick_place_no_parse:
  assumes "str_contains ''pick'' a \<or> str_contains ''place'' a"
  shows "parse_action a = None"
proof (cases "parse_action a")
  case None
  then show ?thesis .
next
  case (Some dm)
  then obtain d m where "parse_action a = Some (d, m)" by (cases dm) auto
  from parse_action_no_p [OF this] assms show ?thesis
    by (auto dest!: str_contains_set)
qed

section \<open>The state manager\<close>

lemma direction_vectors_simps:
  "direction_vectors m ''left'' = Some (- m, 0, 0)"
  "direction_vectors m ''right'' = Some (m, 0, 0)"
  "direction_vectors m ''forward'' = Some (0, m, 0)"
  "direction_vectors m ''back'' = Some (0, - m, 0)"
  by (simp_all add: direction_vectors_def)

lemma direction_vectors_None:
  "d \<notin> set valid_directions \<Longrightarrow> direction_vectors m d = None"
  by (simp add: direction_vectors_def valid_directions_def)

lemma apply_shift_fields:
  "relationships (fst (apply_shift self obj d m)) = relationships self"
  "initial_objects (fst (apply_shift self obj d m)) = initial_objects self"
  "alignment_threshold (fst (apply_shift self obj d m)) = alignment_threshold self"
  by (simp_all add: apply_shift_def split: option.splits)

lemma sm_exec_fields:
  "relationships (sm_exec self c) = relationships self"
  "initial_objects (sm_exec self c) = initial_objects self"
  "alignment_threshold (sm_exec self c) = alignment_threshold self"
  by (cases c; simp add: apply_shift_fields reset_to_initial_def)+

lemma foldl_sm_exec_fields:
  "relationships (foldl sm_exec self cs) = relationships self"
  "initial_objects (foldl sm_exec self cs) = initial_objects self"
  "alignment_threshold (foldl sm_exec self cs) = alignment_threshold self"
  by (induction cs arbitrary: self; simp add: sm_exec_fields)+

lemma apply_shift_action_fields:
  "relationships (state_manager (fst (apply_shift_action ap obj a))) = relationships (state_manager ap)"
  "initial_objects (state_manager (fst (apply_shift_action ap obj a))) = initial_objects (state_manager ap)"
  "alignment_threshold (state_manager (fst (apply_shift_action ap obj a))) = alignment_threshold (state_manager ap)"
  "shift_reward (fst (apply_shift_action ap obj a)) = shift_reward ap"
  by (auto simp: apply_shift_action_def apply_shift_def
           split: option.splits prod.splits float_lit.splits)

lemma apply_intervention_fields:
  "relationships (state_manager (fst (apply_intervention ap obj a))) = relationships (state_manager ap)"
  "initial_objects (state_manager (fst (apply_intervention ap obj a))) = initial_objects (state_manager ap)"
  "alignment_threshold (state_manager (fst (apply_intervention ap obj a))) = alignment_threshold (state_manager ap)"
  "shift_reward (fst (apply_intervention ap obj a)) = shift_reward ap"
  by (simp_all add: apply_intervention_def apply_shift_action_fields apply_swap_def apply_pick_place_def)

lemma slice_On: "slice_3_m1 (''On('' @ b @ [e]) = b"
  by (simp add: slice_3_m1_def butlast_append)

lemma startswith_On: "startswith (''On('' @ b) ''On(''"
  by (simp add: startswith_def)

lemma check_alignment_Some:
  "objects self a = Some (ax, ay, az) \<Longrightarrow> objects self b = Some (bx, by, bz) \<Longrightarrow>
   check_alignment self a b = (\<bar>ax - bx\<bar> < alignment_threshold self \<and> \<bar>ay - by\<bar> < alignment_threshold self)"
  by (simp add: check_alignment_def)

lemma check_body:
  assumes "startswith r ''On(''" "slice_3_m1 r = U @ CHR '','' # L"
    "CHR '','' \<notin> set U" "CHR '','' \<notin> set L"
  shows "check_relationship_holds self r =
     (case (objects self (strip U), objects self (strip L)) of
        (Some (ux, uy, uz), Some (lx, ly, lz)) \<Rightarrow>
           \<bar>ux - lx\<bar> < alignment_threshold self \<and> \<bar>uy - ly\<bar> < alignment_threshold self
      | _ \<Rightarrow> True)"
proof -
  have sp: "split_on (CHR '','') (U @ CHR '','' # L) = [U, L]"
    using assms(3,4) by (simp add: split_on_append_sep split_on_no_sep)
  show ?thesis
    unfolding check_relationship_holds_def
    using assms(1) by (auto simp: assms(2) sp Let_def check_alignment_Some split: option.splits)
qed

lemma check_On:
  assumes "CHR '','' \<notin> set U" "CHR '','' \<notin> set L"
  shows "check_relationship_holds self (''On('' @ U @ '','' @ L @ '')'') =
     (case (objects self (strip U), objects self (strip L)) of
        (Some (ux, uy, uz), Some (lx, ly, lz)) \<Rightarrow>
           \<bar>ux - lx\<bar> < alignment_threshold self \<and> \<bar>uy - ly\<bar> < alignment_threshold self
      | _ \<Rightarrow> True)"
proof (rule check_body [OF _ _ assms])
  show "startswith (''On('' @ U @ '','' @ L @ '')'') ''On(''"
    by (rule startswith_On)
  show "slice_3_m1 (''On('' @ U @ '','' @ L @ '')'') = U @ CHR '','' # L"
    using slice_On [of "U @ '','' @ L" "CHR '')''"] by simp
qed

lemma strip_digit: "strip ''1'' = ''1''" "strip ''0'' = ''0''"
  by (simp_all add: strip_def is_space_def)

text \<open>
  Claim C3. \<^verbatim>\<open>apply_shift\<close> on a known object returns \<^verbatim>\<open>True\<close> and changes the manager in
  two places only: the object's position, where \<^verbatim>\<open>left\<close> subtracts the magnitude from x,
  \<^verbatim>\<open>right\<close> adds it to x, \<^verbatim>\<open>forward\<close> adds it to y and \<^verbatim>\<open>back\<close> subtracts it from y, the
  other coordinates and every other object's position staying as they are; and the set
  of intervened objects, which gains the object. On an unknown object, or with a direction
  that is none of the four tokens, it returns \<^verbatim>\<open>False\<close> and the manager is unchanged.
\<close>

theorem apply_shift_correct:
  "(objects self obj = Some (x, y, z) \<longrightarrow>
      apply_shift self obj ''left'' m =
        (self\<lparr> objects := (objects self)(obj \<mapsto> (x - m, y, z)),
               intervened_objects := finsert obj (intervened_objects self) \<rparr>, True) \<and>
      apply_shift self obj ''right'' m =
        (self\<lparr> objects := (objects self)(obj \<mapsto> (x + m, y, z)),
               intervened_objects := finsert obj (intervened_objects self) \<rparr>, True) \<and>
      apply_shift self obj ''forward'' m =
        (self\<lparr> objects := (objects self)(obj \<mapsto> (x, y + m, z)),
               intervened_objects := finsert obj (intervened_objects self) \<rparr>, True) \<and>
      apply_shift self obj ''back'' m =
        (self\<lparr> objects := (objects self)(obj \<mapsto> (x, y - m, z)),
               intervened_objects := finsert obj (intervened_objects self) \<rparr>, True)) \<and>
   (objects self obj = None \<or> direction \<notin> set valid_directions \<longrightarrow>
      apply_shift self obj direction m = (self, False))"
  by (auto simp: apply_shift_def direction_vectors_simps direction_vectors_None split: option.splits)

theorem apply_shift_correct_witness:
  "objects scenario8_manager ''1'' = Some (2 / 100, 0, 0) \<and>
   objects (fst (apply_shift scenario8_manager ''1'' ''left'' (1 / 100))) ''1'' = Some (1 / 100, 0, 0) \<and>
   objects (fst (apply_shift scenario8_manager ''1'' ''left'' (1 / 100))) ''0'' = Some (0, 0, 0) \<and>
   snd (apply_shift scenario8_manager ''1'' ''left'' (1 / 100)) \<and>
   objects scenario8_manager ''7'' = None \<and>
   apply_shift scenario8_manager ''7'' ''left'' (1 / 100) = (scenario8_manager, False) \<and>
   ''up'' \<notin> set valid_directions \<and>
   apply_shift scenario8_manager ''1'' ''up'' (1 / 100) = (scenario8_manager, False)"
  using apply_shift_correct [of scenario8_manager "''1''" "2 / 100" 0 0 "1 / 100" "''up''"]
        apply_shift_correct [of scenario8_manager "''7''" 0 0 0 "1 / 100" "''left''"]
  by (simp add: scenario8_manager_def scenario8_state_def StateManager_def valid_directions_def)

text \<open>
  Claim C4. \<^verbatim>\<open>get_relationships\<close> returns a subset of the declared relationships. A declared
  predicate that does not start with \<^verbatim>\<open>On(\<close>, or whose body does not hold exactly one comma
  (so does not split into two fields), is always in the result. A predicate \<^verbatim>\<open>On(U,L)\<close> is
  in the result iff it is declared and, when both stripped names denote tracked objects,
  their x and their y coordinates each differ by less than the threshold; when one of them
  is not tracked it is in the result as soon as it is declared. The result depends on the
  manager through the positions, the declared set and the threshold only.
\<close>

theorem get_relationships_characterisation:
  "get_relationships self |\<subseteq>| relationships self \<and>
   (r |\<in>| relationships self \<and> \<not> startswith r ''On('' \<longrightarrow> r |\<in>| get_relationships self) \<and>
   (r |\<in>| relationships self \<and> count_list (slice_3_m1 r) (CHR '','') \<noteq> 1 \<longrightarrow>
      r |\<in>| get_relationships self) \<and>
   (CHR '','' \<notin> set U \<and> CHR '','' \<notin> set L \<longrightarrow>
      (''On('' @ U @ '','' @ L @ '')'' |\<in>| get_relationships self \<longleftrightarrow>
         ''On('' @ U @ '','' @ L @ '')'' |\<in>| relationships self \<and>
         (case (objects self (strip U), objects self (strip L)) of
            (Some (ux, uy, uz), Some (lx, ly, lz)) \<Rightarrow>
               \<bar>ux - lx\<bar> < alignment_threshold self \<and> \<bar>uy - ly\<bar> < alignment_threshold self
          | _ \<Rightarrow> True))) \<and>
   (objects self = objects other \<and> relationships self = relationships other \<and>
    alignment_threshold self = alignment_threshold other \<longrightarrow>
      get_relationships self = get_relationships other)"
proof (intro conjI impI)
  show "get_relationships self |\<subseteq>| relationships self"
    by (auto simp: get_relationships_def)
next
  assume "r |\<in>| relationships self \<and> \<not> startswith r ''On(''"
  then show "r |\<in>| get_relationships self"
    by (simp add: get_relationships_def check_relationship_holds_def)
next
  assume "r |\<in>| relationships self \<and> count_list (slice_3_m1 r) (CHR '','') \<noteq> 1"
  then show "r |\<in>| get_relationships self"
    by (simp add: get_relationships_def check_relationship_holds_def length_split_on Let_def)
next
  assume "CHR '','' \<notin> set U \<and> CHR '','' \<notin> set L"
  then have "CHR '','' \<notin> set U" "CHR '','' \<notin> set L" by simp_all
  from check_On [OF this, of self] show "(''On('' @ U @ '','' @ L @ '')'' |\<in>| get_relationships self) =
         (''On('' @ U @ '','' @ L @ '')'' |\<in>| relationships self \<and>
         (case (objects self (strip U), objects self (strip L)) of
            (Some (ux, uy, uz), Some (lx, ly, lz)) \<Rightarrow>
               \<bar>ux - lx\<bar> < alignment_threshold self \<and> \<bar>uy - ly\<bar> < alignment_threshold self
          | _ \<Rightarrow> True))"
    by (simp only: get_relationships_def ffmember_filter)
next
  assume a: "objects self = objects other \<and> relationships self = relationships other \<and>
    alignment_threshold self = alignment_threshold other"
  then have e: "objects self = objects other" "alignment_threshold self = alignment_threshold other"
    by simp_all
  have "check_relationship_holds self = check_relationship_holds other"
    unfolding check_relationship_holds_def check_alignment_def e ..
  with a show "get_relationships self = get_relationships other"
    by (simp add: get_relationships_def)
qed

theorem get_relationships_characterisation_witness:
  "CHR '','' \<notin> set ''1'' \<and> CHR '','' \<notin> set ''0'' \<and>
   ''On(1,0)'' |\<in>| get_relationships scenario8_manager \<and>
   ''On(1,0)'' |\<notin>| get_relationships (fst (apply_shift scenario8_manager ''1'' ''right'' (1 / 10))) \<and>
   ''On(1,0)'' |\<in>| relationships (fst (apply_shift scenario8_manager ''1'' ''right'' (1 / 10)))"
  using get_relationships_characterisation
          [of scenario8_manager "''On(1,0)''" "''1''" "''0''" scenario8_manager]
        get_relationships_characterisation
          [of "fst (apply_shift scenario8_manager ''1'' ''right'' (1 / 10))" "''On(1,0)''"
              "''1''" "''0''" scenario8_manager]
  by (simp add: strip_digit)
     (simp add: scenario8_manager_def scenario8_state_def StateManager_def apply_shift_def
        direction_vectors_def)

text \<open>
  Claim C9. The declared relationship set of a state manager is the set built from the
  initial state at construction, after any sequence of method calls; resetting leaves it
  as it is, restores the positions to those given at construction and empties the set of
  intervened objects; applying an intervention through the applier leaves it as it is.
\<close>

theorem relationships_fixed:
  "relationships (StateManager init thr) = fset_of_list (is_relationships init) \<and>
   relationships (foldl sm_exec (StateManager init thr) calls) = fset_of_list (is_relationships init) \<and>
   relationships (reset_to_initial self) = relationships self \<and>
   objects (reset_to_initial (foldl sm_exec (StateManager init thr) calls)) = is_objects init \<and>
   intervened_objects (reset_to_initial self) = {||} \<and>
   relationships (state_manager (fst (apply_intervention applier obj action))) =
     relationships (state_manager applier)"
proof -
  have "initial_objects (foldl sm_exec (StateManager init thr) calls) = is_objects init"
    by (simp add: foldl_sm_exec_fields) (simp add: StateManager_def)
  moreover have "relationships (StateManager init thr) = fset_of_list (is_relationships init)"
    by (simp add: StateManager_def)
  ultimately show ?thesis
    by (simp add: foldl_sm_exec_fields apply_intervention_fields reset_to_initial_def)
qed

section \<open>The intervention applier\<close>

text \<open>
  Claim C6, as the code has it. A swap descriptor (object \<^verbatim>\<open>Swap\<close>, a comma in the
  descriptor, no direction token in it), a descriptor containing \<^verbatim>\<open>pick\<close> or \<^verbatim>\<open>place\<close>, and
  a shift descriptor that fails to parse all give the same returned pair \<^verbatim>\<open>(False, 0.0)\<close>,
  and the applier with its state manager is unchanged in each case.
\<close>

theorem apply_unsupported:
  "(obj = ''Swap'' \<and> CHR '','' \<in> set action \<and> \<not> has_direction_token action \<longrightarrow>
      apply_intervention self obj action = (self, Returned False 0)) \<and>
   (str_contains ''pick'' action \<or> str_contains ''place'' action \<longrightarrow>
      apply_intervention self obj action = (self, Returned False 0)) \<and>
   (CHR '','' \<in> set action \<and> has_direction_token action \<and> parse_action action = None \<longrightarrow>
      apply_intervention self obj action = (self, Returned False 0))"
proof -
  have "str_contains ''pick'' action \<or> str_contains ''place'' action \<Longrightarrow>
      apply_shift_action self obj action = (self, Returned False 0)"
    by (simp add: apply_shift_action_def pick_place_no_parse)
  then show ?thesis
    by (auto simp: apply_intervention_def apply_swap_def apply_pick_place_def apply_shift_action_def)
qed

text \<open>The returned pairs of a swap descriptor, of a pick descriptor and of a malformed
  shift descriptor are equal: no result tag tells them apart.\<close>

lemma parse_malformed: "parse_action ''left,abc'' = None"
  by (simp add: parse_action_def strip_def is_space_def valid_directions_def py_float_def
        split_sign_def to_lower_def parse_number_def parse_exponent_def is_exponent_mark_def
        is_digit_def)

theorem apply_unsupported_same_result:
  "snd (apply_intervention scenario8_applier ''Swap'' ''1, 2'') =
     snd (apply_intervention scenario8_applier ''1'' ''left,abc'') \<and>
   snd (apply_intervention scenario8_applier ''1'' ''pick-top'') =
     snd (apply_intervention scenario8_applier ''1'' ''left,abc'')"
  by (simp add: apply_intervention_def apply_swap_def apply_pick_place_def apply_shift_action_def
        has_direction_token_def valid_directions_def startswith_def parse_malformed)

theorem apply_unsupported_witness:
  "apply_intervention scenario8_applier ''Swap'' ''1, 2'' = (scenario8_applier, Returned False 0) \<and>
   apply_intervention scenario8_applier ''1'' ''pick-top'' = (scenario8_applier, Returned False 0) \<and>
   apply_intervention scenario8_applier ''1'' ''place-top, left_bin'' =
     (scenario8_applier, Returned False 0) \<and>
   apply_intervention scenario8_applier ''1'' ''left,abc'' = (scenario8_applier, Returned False 0)"
proof -
  have swap: "''Swap'' = ''Swap'' \<and> CHR '','' \<in> set ''1, 2'' \<and> \<not> has_direction_token ''1, 2''"
    by (simp add: has_direction_token_def valid_directions_def startswith_def)
  have pick: "str_contains ''pick'' ''pick-top'' \<or> str_contains ''place'' ''pick-top''"
    by (simp add: startswith_def)
  have place: "str_contains ''pick'' ''place-top, left_bin'' \<or>
               str_contains ''place'' ''place-top, left_bin''"
    by (simp add: startswith_def)
  have malformed: "CHR '','' \<in> set ''left,abc'' \<and> has_direction_token ''left,abc'' \<and>
                   parse_action ''left,abc'' = None"
    by (simp add: has_direction_token_def valid_directions_def startswith_def parse_malformed)
  have 1: "apply_intervention scenario8_applier ''Swap'' ''1, 2'' = (scenario8_applier, Returned False 0)"
    by (rule apply_unsupported [THEN conjunct1, THEN mp, OF swap])
  have 2: "apply_intervention scenario8_applier ''1'' ''pick-top'' = (scenario8_applier, Returned False 0)"
    by (rule apply_unsupported [THEN conjunct2, THEN conjunct1, THEN mp, OF pick])
  have 3: "apply_intervention scenario8_applier ''1'' ''place-top, left_bin'' =
             (scenario8_applier, Returned False 0)"
    by (rule apply_unsupported [THEN conjunct2, THEN conjunct1, THEN mp, OF place])
  have 4: "apply_intervention scenario8_applier ''1'' ''left,abc'' = (scenario8_applier, Returned False 0)"
    by (rule apply_unsupported [THEN conjunct2, THEN conjunct2, THEN mp, OF malformed])
  from 1 2 3 4 show ?thesis by (intro conjI)
qed

section \<open>The reward shaper\<close>

text \<open>
  Claim C5, as the code has it. \<^verbatim>\<open>final_reward\<close> is the achieved fraction (1 for an empty
  goal) minus the depth penalty times the number of interventions, unclamped; between two
  sequences it differs by minus the depth penalty times the difference of their lengths;
  it strictly decreases as the sequence lengthens when the depth penalty is positive.
\<close>

theorem final_reward_formula:
  "final_reward self rels ivs =
     (if goal self = {||} then 1
      else real (fcard (rels |\<inter>| goal self)) / real (fcard (goal self)))
       - depth_penalty self * real (length ivs) \<and>
   final_reward self rels ivs' - final_reward self rels ivs =
     - depth_penalty self * (real (length ivs') - real (length ivs)) \<and>
   (0 < depth_penalty self \<and> length ivs < length ivs' \<longrightarrow>
      final_reward self rels ivs' < final_reward self rels ivs)"
  by (auto simp: final_reward_def algebra_simps)

text \<open>With the depth penalty 0 of \<^verbatim>\<open>test_system.py\<close> a longer sequence does not score
  lower.\<close>

theorem final_reward_not_strict:
  "\<not> final_reward (RewardShaper {|''On(2,1)'', ''On(3,2)'', ''On(4,3)''|} 0 0)
        {|''On(1,0)'', ''On(2,1)'', ''On(3,2)''|} [(''1'', ''left,0.005''), (''2'', ''right,0.01'')]
     < final_reward (RewardShaper {|''On(2,1)'', ''On(3,2)'', ''On(4,3)''|} 0 0)
        {|''On(1,0)'', ''On(2,1)'', ''On(3,2)''|} [(''1'', ''left,0.005'')]"
  by (simp add: final_reward_def RewardShaper_def)

theorem final_reward_formula_witness:
  "final_reward (RewardShaper {|''On(1,0)''|} 0 (5 / 100)) {|''On(1,0)''|} [(''1'', ''left,0.01'')] = 95 / 100 \<and>
   final_reward (RewardShaper {|''On(1,0)''|} 0 (5 / 100)) {|''On(1,0)''|} [(''1'', ''left,0.01'')]
     < final_reward (RewardShaper {|''On(1,0)''|} 0 (5 / 100)) {|''On(1,0)''|} []"
  using final_reward_formula [of "RewardShaper {|''On(1,0)''|} 0 (5 / 100)" "{|''On(1,0)''|}"
          "[]" "[(''1'', ''left,0.01'')]"]
        final_reward_formula [of "RewardShaper {|''On(1,0)''|} 0 (5 / 100)" "{|''On(1,0)''|}"
          "[(''1'', ''left,0.01'')]" "[]"]
  by (simp add: RewardShaper_def fcard_finsert_if)

section \<open>Selection among children\<close>








end
